theory Spec2Isabelle
  imports Main
begin

section \<open>Exceptions\<close>

text \<open>
  The exceptions that can travel through \<^verbatim>\<open>chunkstore_s3.py\<close>, each with the text
  \<^verbatim>\<open>str(error)\<close> gives. \<open>StoreUnavailable\<close>, \<open>ChunkNotFound\<close> and \<open>BadChunk\<close> are the
  chunk store's own kinds; \<open>RequestException\<close> stands for
  \<^verbatim>\<open>requests.exceptions.RequestException\<close> and its subclasses other than \<open>HTTPError\<close>
  (connection errors, timeouts); \<open>ParseError\<close> is the XML parser's; \<open>ValueError\<close> and
  \<open>AttributeError\<close> are Python's.
\<close>

datatype exc =
    StoreUnavailable string
  | ChunkNotFound string
  | BadChunk string
  | RequestException string
  | HTTPError string
  | ParseError string
  | ValueError string
  | AttributeError string

fun str :: "exc \<Rightarrow> string" where
  "str (StoreUnavailable m) = m"
| "str (ChunkNotFound m) = m"
| "str (BadChunk m) = m"
| "str (RequestException m) = m"
| "str (HTTPError m) = m"
| "str (ParseError m) = m"
| "str (ValueError m) = m"
| "str (AttributeError m) = m"

text \<open>\<^verbatim>\<open>isinstance(e, requests.exceptions.RequestException)\<close>: \<open>HTTPError\<close> is a subclass.\<close>

fun is_RequestException :: "exc \<Rightarrow> bool" where
  "is_RequestException (RequestException m) = True"
| "is_RequestException (HTTPError m) = True"
| "is_RequestException e = False"

section \<open>The session pool (\<^verbatim>\<open>_Pool\<close>)\<close>

text \<open>
  \<^verbatim>\<open>_Pool\<close> holds a factory and the list \<^verbatim>\<open>_pool\<close> of idle items. The factory is a callable
  without arguments that returns a fresh object at each call: \<open>factory p k\<close> is what its
  call number \<open>k\<close> returns. \<open>created\<close> is a ghost field, absent from the source: the number
  of calls of the factory this pool has made. The lock is not modelled: \<open>get\<close> and \<open>put\<close>
  each run wholly under it, so a run of the pool is a sequence of whole \<open>get\<close>s and \<open>put\<close>s.
\<close>

record 'h Pool =
  factory :: "nat \<Rightarrow> 'h"
  pool :: "'h list"
  created :: nat

definition Pool_init :: "(nat \<Rightarrow> 'h) \<Rightarrow> 'h Pool" where
  "Pool_init f = \<lparr>factory = f, pool = [], created = 0\<rparr>"

text \<open>
  \<^verbatim>\<open>get\<close>: an empty \<^verbatim>\<open>_pool\<close> calls the factory; otherwise \<^verbatim>\<open>_pool.pop()\<close> removes and
  returns the last item. Neither branch waits.
\<close>

definition Pool_get :: "'h Pool \<Rightarrow> 'h \<times> 'h Pool" where
  "Pool_get p =
     (if pool p = [] then (factory p (created p), p\<lparr>created := Suc (created p)\<rparr>)
      else (last (pool p), p\<lparr>pool := butlast (pool p)\<rparr>))"

definition Pool_put :: "'h Pool \<Rightarrow> 'h \<Rightarrow> 'h Pool" where
  "Pool_put p item = p\<lparr>pool := pool p @ [item]\<rparr>"

text \<open>
  \<^verbatim>\<open>__call__\<close> is a generator under \<^verbatim>\<open>contextlib.contextmanager\<close>:
  \<^verbatim>\<open>item = self.get(); yield item; self.put(item)\<close>. The body of the \<^verbatim>\<open>with\<close> statement
  runs at the \<^verbatim>\<open>yield\<close>. When the body raises, the exception is thrown into the generator
  at the \<^verbatim>\<open>yield\<close>; no \<^verbatim>\<open>try\<close> surrounds it, so the generator ends there and
  \<^verbatim>\<open>self.put(item)\<close> is not reached. The body works on a world \<open>'w\<close> (the network).
\<close>

definition Pool_call ::
  "'h Pool \<Rightarrow> ('h \<Rightarrow> 'w \<Rightarrow> (exc + 'a) \<times> 'w) \<Rightarrow> 'w \<Rightarrow> (exc + 'a) \<times> 'h Pool \<times> 'w" where
  "Pool_call p body w =
     (let (item, p1) = Pool_get p;
          (r, w1) = body item w
      in case r of
           Inl e \<Rightarrow> (Inl e, p1, w1)
         | Inr v \<Rightarrow> (Inr v, Pool_put p1 item, w1))"

subsection \<open>Runs of the pool\<close>

text \<open>
  A run is a sequence of acquisitions and releases. \<open>outstanding\<close> lists the handles
  acquired and not yet released, \<open>peak\<close> is the largest length it has had. A release of a
  handle that is not outstanding is not a release of the pool's: such a run is refused.
\<close>

datatype 'h pool_op = Acquire | Release 'h

record 'h pool_run =
  the_pool :: "'h Pool"
  outstanding :: "'h list"
  peak :: nat

definition start_run :: "(nat \<Rightarrow> 'h) \<Rightarrow> 'h pool_run" where
  "start_run f = \<lparr>the_pool = Pool_init f, outstanding = [], peak = 0\<rparr>"

fun run_op :: "'h pool_run \<Rightarrow> 'h pool_op \<Rightarrow> 'h pool_run option" where
  "run_op r Acquire =
     (let (item, p1) = Pool_get (the_pool r);
          out = item # outstanding r
      in Some \<lparr>the_pool = p1, outstanding = out, peak = max (peak r) (length out)\<rparr>)"
| "run_op r (Release h) =
     (if h \<in> set (outstanding r)
      then Some (r\<lparr>the_pool := Pool_put (the_pool r) h, outstanding := remove1 h (outstanding r)\<rparr>)
      else None)"

fun run_ops :: "'h pool_run \<Rightarrow> 'h pool_op list \<Rightarrow> 'h pool_run option" where
  "run_ops r [] = Some r"
| "run_ops r (x # xs) = (case run_op r x of None \<Rightarrow> None | Some r1 \<Rightarrow> run_ops r1 xs)"

definition pool_inv :: "'h pool_run \<Rightarrow> bool" where
  "pool_inv r \<longleftrightarrow>
     length (pool (the_pool r)) + length (outstanding r) = created (the_pool r) \<and>
     peak r = created (the_pool r)"

lemma pool_inv_start: "pool_inv (start_run f)"
  by (simp add: pool_inv_def start_run_def Pool_init_def)

lemma pool_inv_step:
  assumes "pool_inv r" and "run_op r x = Some r1"
  shows "pool_inv r1"
proof (cases x)
  case Acquire
  show ?thesis
  proof (cases "pool (the_pool r) = []")
    case True
    with assms Acquire show ?thesis
      by (auto simp: pool_inv_def Pool_get_def Let_def)
  next
    case False
    then obtain n where "length (pool (the_pool r)) = Suc n"
      by (cases "pool (the_pool r)") auto
    with assms Acquire False show ?thesis
      by (auto simp: pool_inv_def Pool_get_def Let_def)
  qed
next
  case (Release h)
  with assms have mem: "h \<in> set (outstanding r)"
    by (auto split: if_splits)
  then have "length (remove1 h (outstanding r)) + 1 = length (outstanding r)"
    by (simp add: length_remove1) (cases "outstanding r", auto)
  with assms Release mem show ?thesis
    by (auto simp: pool_inv_def Pool_put_def)
qed

lemma pool_inv_run:
  "pool_inv r \<Longrightarrow> run_ops r xs = Some r1 \<Longrightarrow> pool_inv r1"
proof (induction xs arbitrary: r)
  case Nil
  then show ?case by simp
next
  case (Cons x xs)
  then show ?case
    by (auto split: option.splits dest: pool_inv_step)
qed

text \<open>
  C9. An acquisition returns the last idle handle when the idle list is not empty and
  the factory's next handle otherwise, always at once; and after any run of acquisitions
  and releases (each release giving back an outstanding handle) the number of handles
  the factory has made is the peak number of handles outstanding together.
\<close>

theorem pool_created_is_peak:
  "(pool p \<noteq> [] \<longrightarrow>
      Pool_get p = (last (pool p), p\<lparr>pool := butlast (pool p)\<rparr>)) \<and>
   (pool p = [] \<longrightarrow>
      Pool_get p = (factory p (created p), p\<lparr>created := Suc (created p)\<rparr>)) \<and>
   (run_ops (start_run f) xs = Some r \<longrightarrow>
      created (the_pool r) = peak r \<and>
      length (pool (the_pool r)) + length (outstanding r) = created (the_pool r))"
proof -
  have "pool_inv r" if "run_ops (start_run f) xs = Some r"
    using pool_inv_run [OF pool_inv_start that] .
  then show ?thesis
    by (auto simp: Pool_get_def pool_inv_def)
qed

theorem pool_created_is_peak_witness:
  "Pool_get \<lparr>factory = (\<lambda>k. k), pool = [5::nat, 7], created = 2\<rparr>
     = (7, \<lparr>factory = (\<lambda>k. k), pool = [5], created = 2\<rparr>) \<and>
   Pool_get \<lparr>factory = (\<lambda>k. k), pool = [] :: nat list, created = 2\<rparr>
     = (2, \<lparr>factory = (\<lambda>k. k), pool = [], created = 3\<rparr>) \<and>
   (\<exists>r. run_ops (start_run (\<lambda>k. k)) [Acquire, Acquire, Release 0, Acquire, Release 1] = Some r \<and>
        created (the_pool r) = 2 \<and> peak r = 2 \<and>
        pool (the_pool r) = [1] \<and> outstanding r = [0])"
proof -
  let ?f = "\<lambda>k::nat. k"
  let ?r = "\<lparr>the_pool = \<lparr>factory = ?f, pool = [1], created = 2\<rparr>,
             outstanding = [0], peak = 2\<rparr>"
  have run: "run_ops (start_run ?f) [Acquire, Acquire, Release 0, Acquire, Release 1] = Some ?r"
    by (simp add: start_run_def Pool_init_def Pool_get_def Pool_put_def)
  have a: "pool \<lparr>factory = ?f, pool = [5::nat, 7], created = 2\<rparr> \<noteq> []"
    by simp
  have b: "pool \<lparr>factory = ?f, pool = [] :: nat list, created = 2\<rparr> = []"
    by simp
  from a pool_created_is_peak
    [where p = "\<lparr>factory = ?f, pool = [5::nat, 7], created = 2\<rparr>", THEN conjunct1]
  have 1: "Pool_get \<lparr>factory = ?f, pool = [5::nat, 7], created = 2\<rparr>
     = (7, \<lparr>factory = ?f, pool = [5], created = 2\<rparr>)"
    by simp
  from b pool_created_is_peak
    [where p = "\<lparr>factory = ?f, pool = [] :: nat list, created = 2\<rparr>",
      THEN conjunct2, THEN conjunct1]
  have 2: "Pool_get \<lparr>factory = ?f, pool = [] :: nat list, created = 2\<rparr>
     = (2, \<lparr>factory = ?f, pool = [], created = 3\<rparr>)"
    by simp
  from run pool_created_is_peak [where f = ?f and r = ?r
      and xs = "[Acquire, Acquire, Release 0, Acquire, Release 1]",
      THEN conjunct2, THEN conjunct2]
  have 3: "created (the_pool ?r) = peak ?r"
    by blast
  from 1 2 3 run show ?thesis
    by simp
qed

section \<open>HTTP, XML and arrays: the libraries the store calls\<close>

datatype http_method = GET | PUT | HEAD

text \<open>The values a query parameter of the listing request can hold.\<close>

datatype pyval = PyStr string | PyInt int | PyNone

fun pytext :: "string option \<Rightarrow> pyval" where
  "pytext None = PyNone"
| "pytext (Some s) = PyStr s"

text \<open>
  What \<^verbatim>\<open>session.request(method, url, ...)\<close> is given. \<open>'b\<close> is the type of byte strings
  (request and response bodies).
\<close>

record 'b http_request =
  req_method :: http_method
  req_url :: string
  req_params :: "string \<rightharpoonup> pyval"
  req_headers :: "string \<rightharpoonup> string"
  req_data :: "'b option"
  req_stream :: bool

text \<open>
  A response: \<open>content\<close> is the body (\<^verbatim>\<open>response.content\<close>, or what \<^verbatim>\<open>response.raw\<close>
  delivers), \<open>error_text\<close> the text of the \<^verbatim>\<open>HTTPError\<close> that the library builds for the
  response (status, reason and URL).
\<close>

record 'b response =
  status_code :: nat
  content :: 'b
  error_text :: string

text \<open>\<^verbatim>\<open>requests.Response.raise_for_status\<close>: an HTTPError for a 4xx or 5xx status.\<close>

definition Response_raise_for_status :: "'b response \<Rightarrow> exc + unit" where
  "Response_raise_for_status r =
     (if 400 \<le> status_code r \<and> status_code r < 600 then Inl (HTTPError (error_text r))
      else Inr ())"

text \<open>
  An XML element as ElementTree gives it: tag, text (\<^verbatim>\<open>None\<close> when the element has none)
  and children. \<^verbatim>\<open>root.iter(tag)\<close> walks the root and all its descendants in document
  order; \<^verbatim>\<open>root.find(tag)\<close> is the first child of the root with the tag, or \<^verbatim>\<open>None\<close>. The
  truth value of an element (\<^verbatim>\<open>if element:\<close>) is that of its length, the number of its
  children; the truth value of \<^verbatim>\<open>None\<close> is false.
\<close>

datatype element = Element (tag: string) (etext: "string option") (children: "element list")

fun iter_all :: "element \<Rightarrow> element list" where
  "iter_all (Element t x cs) = Element t x cs # concat (map iter_all cs)"

definition iter :: "string \<Rightarrow> element \<Rightarrow> element list" where
  "iter t root = filter (\<lambda>e. tag e = t) (iter_all root)"

definition find_child :: "string \<Rightarrow> element \<Rightarrow> element option" where
  "find_child t root = List.find (\<lambda>e. tag e = t) (children root)"

fun truth :: "element option \<Rightarrow> bool" where
  "truth None = False"
| "truth (Some e) = (children e \<noteq> [])"

text \<open>An array: its shape, its dtype and its elements in row-major order.\<close>

record 'v ndarray =
  shape :: "nat list"
  dtype :: string
  elems :: "'v list"

text \<open>\<^verbatim>\<open>s.endswith(suffix)\<close> and the slice \<^verbatim>\<open>s[a:-b]\<close> of Python strings.\<close>

definition endswith :: "string \<Rightarrow> string \<Rightarrow> bool" where
  "endswith s suffix \<longleftrightarrow>
     length suffix \<le> length s \<and> drop (length s - length suffix) s = suffix"

definition slice_from_to_minus :: "string \<Rightarrow> nat \<Rightarrow> nat \<Rightarrow> string" where
  "slice_from_to_minus s a b = drop a (take (length s - b) s)"

text \<open>
  The surroundings of the store, as parameters:
  \<^item> \<open>send session request world\<close> is \<^verbatim>\<open>session.request(...)\<close> (and \<^verbatim>\<open>session.get\<close>): the
    response, or the exception the library raises (after its own retries), and the
    world (the server) afterwards;
  \<^item> \<open>fromstring\<close> is \<^verbatim>\<open>defusedxml.cElementTree.fromstring\<close>;
  \<^item> \<open>read_array\<close> and \<open>write_array\<close> are \<^verbatim>\<open>np.lib.format.read_array\<close> and
    \<^verbatim>\<open>write_array\<close> with \<^verbatim>\<open>allow_pickle=False\<close>;
  \<^item> \<open>content_md5\<close> is \<^verbatim>\<open>base64.b64encode(hashlib.md5(bytes).digest())\<close>;
  \<^item> \<open>urljoin\<close> and \<open>quote\<close> are \<^verbatim>\<open>urlparse.urljoin\<close> and \<^verbatim>\<open>urllib.quote\<close>;
  \<^item> \<open>chunk_metadata\<close> and \<open>split\<close> are the methods of the base class \<^verbatim>\<open>ChunkStore\<close>
    (\<^verbatim>\<open>chunkstore.py\<close>, which is not among the sources): \<open>chunk_metadata name slices dtype
    chunk\<close> gives the chunk name and the shape derived from the slices.
\<close>

record ('h, 'w, 'b, 'v) env =
  send :: "'h \<Rightarrow> 'b http_request \<Rightarrow> 'w \<Rightarrow> (exc + 'b response) \<times> 'w"
  fromstring :: "'b \<Rightarrow> exc + element"
  read_array :: "'b \<Rightarrow> exc + 'v ndarray"
  write_array :: "'v ndarray \<Rightarrow> exc + 'b"
  content_md5 :: "'b \<Rightarrow> string"
  urljoin :: "string \<Rightarrow> string \<Rightarrow> string"
  quote :: "string \<Rightarrow> string"
  chunk_metadata ::
    "string \<Rightarrow> (int \<times> int) list \<Rightarrow> string option \<Rightarrow> 'v ndarray option \<Rightarrow> exc + string \<times> nat list"
  split :: "string \<Rightarrow> nat \<Rightarrow> exc + string \<times> string"

section \<open>The store (\<^verbatim>\<open>S3ChunkStore\<close>)\<close>

text \<open>
  \<^verbatim>\<open>_raise_for_status\<close>: the \<^verbatim>\<open>HTTPError\<close> of the response becomes \<open>ChunkNotFound\<close> for
  status 404 and \<open>StoreUnavailable\<close> otherwise.
\<close>

fun on_HTTPError :: "nat \<Rightarrow> exc \<Rightarrow> exc" where
  "on_HTTPError code (HTTPError m) = (if code = 404 then ChunkNotFound m else StoreUnavailable m)"
| "on_HTTPError code e = e"

definition raise_for_status :: "'b response \<Rightarrow> exc + unit" where
  "raise_for_status response =
     (case Response_raise_for_status response of
        Inl error \<Rightarrow> Inl (on_HTTPError (status_code response) error)
      | Inr u \<Rightarrow> Inr u)"

text \<open>
  The error map the constructor hands to the base class (lines 136-137): request
  exceptions (with their subclass \<open>HTTPError\<close>) and XML parse errors become
  \<open>StoreUnavailable\<close>.
\<close>

fun error_map :: "exc \<Rightarrow> exc option" where
  "error_map (RequestException m) = Some (StoreUnavailable m)"
| "error_map (HTTPError m) = Some (StoreUnavailable m)"
| "error_map (ParseError m) = Some (StoreUnavailable m)"
| "error_map e = None"

text \<open>
  Modelled from the spec: \<^verbatim>\<open>ChunkStore._standard_errors\<close> (\<^verbatim>\<open>chunkstore.py\<close>, not among the
  sources), the scope that maps an exception raised inside it to the kind the error map
  gives and lets every other exception through unchanged. The spec fixes the kind only;
  the model keeps the text of the exception.
\<close>

definition standard_errors :: "string option \<Rightarrow> exc + 'a \<Rightarrow> exc + 'a" where
  "standard_errors chunk_name r =
     (case r of
        Inl e \<Rightarrow> (case error_map e of Some e' \<Rightarrow> Inl e' | None \<Rightarrow> Inl e)
      | Inr v \<Rightarrow> Inr v)"

record 'h S3ChunkStore =
  session_pool :: "'h Pool"
  url :: string

text \<open>
  The constructor: one session from the factory (its call number 0), one \<^verbatim>\<open>GET\<close> on the
  base URL, \<^verbatim>\<open>_raise_for_status\<close> on the response; a \<open>RequestException\<close> becomes
  \<open>StoreUnavailable\<close>, any other exception leaves the constructor as it is. The pool gets
  the factory, whose later calls are numbers 1, 2, ...
\<close>

definition probe_request :: "string \<Rightarrow> 'b http_request" where
  "probe_request u =
     \<lparr>req_method = GET, req_url = u, req_params = Map.empty, req_headers = Map.empty,
      req_data = None, req_stream = False\<rparr>"

definition S3ChunkStore_init ::
  "('h, 'w, 'b, 'v) env \<Rightarrow> (nat \<Rightarrow> 'h) \<Rightarrow> string \<Rightarrow> 'w \<Rightarrow> (exc + 'h S3ChunkStore) \<times> 'w" where
  "S3ChunkStore_init env session_factory u w =
     (let session = session_factory 0;
          (r, w1) = send env session (probe_request u) w;
          probe = (case r of Inl e \<Rightarrow> Inl e | Inr response \<Rightarrow> raise_for_status response)
      in case probe of
           Inl error \<Rightarrow>
             if is_RequestException error then (Inl (StoreUnavailable (str error)), w1)
             else (Inl error, w1)
         | Inr _ \<Rightarrow>
             (Inr \<lparr>session_pool = Pool_init (\<lambda>k. session_factory (Suc k)), url = u\<rparr>, w1))"

definition chunk_url :: "('h, 'w, 'b, 'v) env \<Rightarrow> 'h S3ChunkStore \<Rightarrow> string \<Rightarrow> string" where
  "chunk_url env st chunk_name = urljoin env (url st) (quote env (chunk_name @ ''.npy''))"

text \<open>
  \<^verbatim>\<open>_request\<close> is a generator under \<^verbatim>\<open>contextlib.contextmanager\<close> too. Inside
  \<^verbatim>\<open>_standard_errors\<close> and the pool's scope it sends the request, checks the status and
  yields the response to the caller's \<^verbatim>\<open>with\<close> body (\<open>body\<close>); whatever the body raises is
  thrown in at the \<^verbatim>\<open>yield\<close> and so passes through the pool's scope and the error mapping.
\<close>

definition request ::
  "('h, 'w, 'b, 'v) env \<Rightarrow> 'h S3ChunkStore \<Rightarrow> string option \<Rightarrow> 'b http_request \<Rightarrow>
   ('b response \<Rightarrow> exc + 'a) \<Rightarrow> 'w \<Rightarrow> (exc + 'a) \<times> 'h S3ChunkStore \<times> 'w" where
  "request env st chunk_name rq body w =
     (let (r, p1, w1) =
            Pool_call (session_pool st)
              (\<lambda>session w0.
                 case send env session rq w0 of
                   (Inl e, w') \<Rightarrow> (Inl e, w')
                 | (Inr response, w') \<Rightarrow>
                     (case raise_for_status response of
                        Inl e \<Rightarrow> (Inl e, w')
                      | Inr _ \<Rightarrow> (body response, w')))
              w
      in (standard_errors chunk_name r, st\<lparr>session_pool := p1\<rparr>, w1))"

subsection \<open>The text of \<open>BadChunk\<close>\<close>

function show_nat :: "nat \<Rightarrow> string" where
  "show_nat n =
     (if n < 10 then [char_of (48 + n)]
      else show_nat (n div 10) @ [char_of (48 + n mod 10)])"
  by pat_completeness auto
termination
  by (relation "measure id") auto

declare show_nat.simps [simp del]

text \<open>\<^verbatim>\<open>str\<close> of a tuple of integers: \<^verbatim>\<open>()\<close>, \<^verbatim>\<open>(3,)\<close>, \<^verbatim>\<open>(3, 4)\<close>.\<close>

fun show_items :: "nat list \<Rightarrow> string" where
  "show_items [] = []"
| "show_items [n] = show_nat n"
| "show_items (n # ns) = show_nat n @ '', '' @ show_items ns"

definition show_shape :: "nat list \<Rightarrow> string" where
  "show_shape ns =
     (case ns of
        [n] \<Rightarrow> ''('' @ show_nat n @ '',)''
      | _ \<Rightarrow> ''('' @ show_items ns @ '')'')"

text \<open>\<^verbatim>\<open>repr\<close> of a string that needs no escapes: the string between single quotes.\<close>

definition repr :: "string \<Rightarrow> string" where
  "repr s = [CHR 0x27] @ s @ [CHR 0x27]"

definition BadChunk_text :: "string \<Rightarrow> string \<Rightarrow> nat list \<Rightarrow> string \<Rightarrow> nat list \<Rightarrow> string" where
  "BadChunk_text chunk_name dt shp dt' shp' =
     ''Chunk '' @ repr chunk_name @ '': dtype '' @ dt @ '' and/or shape '' @ show_shape shp @
     '' in store differs from expected dtype '' @ dt' @ '' and shape '' @ show_shape shp'"

subsection \<open>get, put, has\<close>

definition chunk_request ::
  "http_method \<Rightarrow> string \<Rightarrow> (string \<rightharpoonup> string) \<Rightarrow> 'b option \<Rightarrow> bool \<Rightarrow> 'b http_request" where
  "chunk_request m u hs d s =
     \<lparr>req_method = m, req_url = u, req_params = Map.empty, req_headers = hs,
      req_data = d, req_stream = s\<rparr>"

text \<open>
  \<^verbatim>\<open>get_chunk\<close>. The dtype given is already a \<^verbatim>\<open>np.dtype\<close>. The array is read from the
  response inside the \<^verbatim>\<open>with\<close> body; shape and dtype are compared after it.
\<close>

definition get_chunk ::
  "('h, 'w, 'b, 'v) env \<Rightarrow> 'h S3ChunkStore \<Rightarrow> string \<Rightarrow> (int \<times> int) list \<Rightarrow> string \<Rightarrow> 'w \<Rightarrow>
   (exc + 'v ndarray) \<times> 'h S3ChunkStore \<times> 'w" where
  "get_chunk env st array_name slices dt w =
     (case chunk_metadata env array_name slices (Some dt) None of
        Inl e \<Rightarrow> (Inl e, st, w)
      | Inr (chunk_name, shp) \<Rightarrow>
          (let u = chunk_url env st chunk_name;
               (r, st1, w1) =
                 request env st (Some chunk_name) (chunk_request GET u Map.empty None True)
                   (\<lambda>response. read_array env (content response)) w
           in case r of
                Inl e \<Rightarrow> (Inl e, st1, w1)
              | Inr chunk \<Rightarrow>
                  if shape chunk \<noteq> shp \<or> dtype chunk \<noteq> dt
                  then (Inl (BadChunk (BadChunk_text chunk_name (dtype chunk) (shape chunk) dt shp)),
                        st1, w1)
                  else (Inr chunk, st1, w1)))"

definition put_chunk ::
  "('h, 'w, 'b, 'v) env \<Rightarrow> 'h S3ChunkStore \<Rightarrow> string \<Rightarrow> (int \<times> int) list \<Rightarrow> 'v ndarray \<Rightarrow> 'w \<Rightarrow>
   (exc + unit) \<times> 'h S3ChunkStore \<times> 'w" where
  "put_chunk env st array_name slices chunk w =
     (case chunk_metadata env array_name slices None (Some chunk) of
        Inl e \<Rightarrow> (Inl e, st, w)
      | Inr (chunk_name, _) \<Rightarrow>
          (let u = chunk_url env st chunk_name in
           case write_array env chunk of
             Inl e \<Rightarrow> (Inl e, st, w)
           | Inr fp \<Rightarrow>
               (let md5 = content_md5 env fp;
                    hs = [''Content-MD5'' \<mapsto> md5]
                in request env st (Some chunk_name) (chunk_request PUT u hs (Some fp) False)
                     (\<lambda>response. Inr ()) w)))"

definition has_chunk ::
  "('h, 'w, 'b, 'v) env \<Rightarrow> 'h S3ChunkStore \<Rightarrow> string \<Rightarrow> (int \<times> int) list \<Rightarrow> string \<Rightarrow> 'w \<Rightarrow>
   (exc + bool) \<times> 'h S3ChunkStore \<times> 'w" where
  "has_chunk env st array_name slices dt w =
     (case chunk_metadata env array_name slices (Some dt) None of
        Inl e \<Rightarrow> (Inl e, st, w)
      | Inr (chunk_name, _) \<Rightarrow>
          (let u = chunk_url env st chunk_name;
               (r, st1, w1) =
                 request env st (Some chunk_name) (chunk_request HEAD u Map.empty None False)
                   (\<lambda>response. Inr ()) w
           in case r of
                Inl (ChunkNotFound m) \<Rightarrow> (Inr False, st1, w1)
              | Inl e \<Rightarrow> (Inl e, st1, w1)
              | Inr _ \<Rightarrow> (Inr True, st1, w1)))"

subsection \<open>Listing\<close>

definition NS :: string where
  "NS = ''{http://s3.amazonaws.com/doc/2006-03-01/}''"

definition list_max_keys :: int where
  "list_max_keys = 100000"

text \<open>
  The state of the loop of \<^verbatim>\<open>list_chunk_ids\<close>: the keys so far (the text of each
  \<^verbatim>\<open>Key\<close> element, \<^verbatim>\<open>None\<close> for one without text), the query parameters and the store.
  \<open>sent\<close>, \<open>received\<close> and \<open>warned\<close> are ghost fields: the listing requests issued so
  far and the listing documents parsed so far, oldest first, and whether
  \<^verbatim>\<open>warnings.warn\<close> has been called.
\<close>

record ('h, 'b) listing =
  keys :: "string option list"
  params :: "string \<rightharpoonup> pyval"
  store :: "'h S3ChunkStore"
  sent :: "'b http_request list"
  received :: "element list"
  warned :: bool

text \<open>
  The branch under \<^verbatim>\<open>if more:\<close>: the new parameters, or \<open>None\<close> where the code warns and
  stops.
\<close>

definition update_marker ::
  "element \<Rightarrow> string option list \<Rightarrow> (string \<rightharpoonup> pyval) \<Rightarrow> (string \<rightharpoonup> pyval) option" where
  "update_marker root ks ps =
     (let next_marker = find_child (NS @ ''NextMarker'') root in
      if truth next_marker then Some (ps(''marker'' \<mapsto> pytext (etext (the next_marker))))
      else if ks \<noteq> [] then Some (ps(''marker'' \<mapsto> pytext (last ks)))
      else None)"

text \<open>One pass of the loop body: the loop goes on, stops, or an exception leaves it.\<close>

datatype 's pass = Again 's | Stop 's | Raise exc 's

definition list_request :: "string \<Rightarrow> (string \<rightharpoonup> pyval) \<Rightarrow> 'b http_request" where
  "list_request u ps =
     \<lparr>req_method = GET, req_url = u, req_params = ps, req_headers = Map.empty,
      req_data = None, req_stream = False\<rparr>"

definition list_pass ::
  "('h, 'w, 'b, 'v) env \<Rightarrow> string \<Rightarrow> ('h, 'b) listing \<Rightarrow> 'w \<Rightarrow> ('h, 'b) listing pass \<times> 'w" where
  "list_pass env u s w =
     (let rq = list_request u (params s);
          (r, st1, w1) = request env (store s) None rq (\<lambda>response. fromstring env (content response)) w;
          s1 = s\<lparr>store := st1, sent := sent s @ [rq]\<rparr>
      in case r of
           Inl e \<Rightarrow> (Raise e s1, w1)
         | Inr root \<Rightarrow>
             (let ks = keys s1 @ map etext (iter (NS @ ''Key'') root);
                  truncated = find_child (NS @ ''IsTruncated'') root;
                  more = (case truncated of None \<Rightarrow> False | Some t \<Rightarrow> etext t = Some ''true'');
                  s2 = s1\<lparr>keys := ks, received := received s1 @ [root]\<rparr>
              in if more then
                   (case update_marker root ks (params s2) of
                      Some ps \<Rightarrow> (Again (s2\<lparr>params := ps\<rparr>), w1)
                    | None \<Rightarrow> (Stop (s2\<lparr>warned := True\<rparr>), w1))
                 else (Stop s2, w1)))"

text \<open>
  The \<^verbatim>\<open>while more:\<close> loop, with fuel: \<open>None\<close> when the fuel runs out before the loop
  ends (a server can answer "truncated" for ever).
\<close>

fun list_loop ::
  "nat \<Rightarrow> ('h, 'w, 'b, 'v) env \<Rightarrow> string \<Rightarrow> ('h, 'b) listing \<Rightarrow> 'w \<Rightarrow>
   ((exc + unit) \<times> ('h, 'b) listing \<times> 'w) option" where
  "list_loop 0 env u s w = None"
| "list_loop (Suc n) env u s w =
     (case list_pass env u s w of
        (Again s1, w1) \<Rightarrow> list_loop n env u s1 w1
      | (Stop s1, w1) \<Rightarrow> Some (Inr (), s1, w1)
      | (Raise e s1, w1) \<Rightarrow> Some (Inl e, s1, w1))"

text \<open>
  The final comprehension \<^verbatim>\<open>[key[len(prefix) + 1:-4] for key in keys if
  key.endswith('.npy')]\<close>. A key that is \<^verbatim>\<open>None\<close> has no \<^verbatim>\<open>endswith\<close>.
\<close>

fun strip_keys :: "string \<Rightarrow> string option list \<Rightarrow> exc + string list" where
  "strip_keys prefix [] = Inr []"
| "strip_keys prefix (None # ks) =
     Inl (AttributeError (repr ''NoneType'' @ '' object has no attribute '' @ repr ''endswith''))"
| "strip_keys prefix (Some key # ks) =
     (case strip_keys prefix ks of
        Inl e \<Rightarrow> Inl e
      | Inr ids \<Rightarrow>
          if endswith key ''.npy'' then Inr (slice_from_to_minus key (length prefix + 1) 4 # ids)
          else Inr ids)"

definition list_chunk_ids ::
  "nat \<Rightarrow> ('h, 'w, 'b, 'v) env \<Rightarrow> 'h S3ChunkStore \<Rightarrow> string \<Rightarrow> 'w \<Rightarrow>
   ((exc + string list) \<times> ('h, 'b) listing \<times> 'w) option" where
  "list_chunk_ids fuel env st array_name w =
     (let s0 = \<lparr>keys = [], params = Map.empty, store = st, sent = [], received = [], warned = False\<rparr> in
      case split env array_name 1 of
        Inl e \<Rightarrow> Some (Inl e, s0, w)
      | Inr (bucket, prefix) \<Rightarrow>
          (let u = urljoin env (url st) (quote env bucket);
               ps = [''prefix'' \<mapsto> PyStr prefix, ''max-keys'' \<mapsto> PyInt list_max_keys]
           in case list_loop fuel env u (s0\<lparr>params := ps\<rparr>) w of
                None \<Rightarrow> None
              | Some (Inl e, s, w1) \<Rightarrow> Some (Inl e, s, w1)
              | Some (Inr _, s, w1) \<Rightarrow> Some (strip_keys prefix (keys s), s, w1)))"

section \<open>An example server\<close>

text \<open>
  A small server to run the store against: it treats all sessions alike, a body is an encoded
  array, a listing document or nothing, and the server holds the objects put so far (by
  URL) and the listing documents it will serve, one per listing request. An unknown URL
  gets status 404. The other surroundings are as simple: URLs are joined by
  concatenation, nothing is quoted, a chunk name is the array name, a slash and the
  start indices joined by underscores, and the shape is the lengths of the slices.
\<close>

datatype 'v payload = ArrayBytes "'v ndarray" | Document element | NoBytes

record 'v server =
  objects :: "(string \<times> 'v payload) list"
  pages :: "element list"

definition ok_response :: "'b \<Rightarrow> 'b response" where
  "ok_response b = \<lparr>status_code = 200, content = b, error_text = []\<rparr>"

definition not_found_response :: "string \<Rightarrow> 'v payload response" where
  "not_found_response u =
     \<lparr>status_code = 404, content = NoBytes,
      error_text = ''404 Client Error: Not Found for url: '' @ u\<rparr>"

definition demo_send ::
  "'h \<Rightarrow> 'v payload http_request \<Rightarrow> 'v server \<Rightarrow> (exc + 'v payload response) \<times> 'v server" where
  "demo_send session rq w =
     (if req_params rq ''prefix'' \<noteq> None then
        (case pages w of
           [] \<Rightarrow> (Inl (RequestException ''Connection refused''), w)
         | p # ps \<Rightarrow> (Inr (ok_response (Document p)), w\<lparr>pages := ps\<rparr>))
      else if req_method rq = PUT then
        (case req_data rq of
           None \<Rightarrow> (Inr (ok_response NoBytes), w)
         | Some d \<Rightarrow> (Inr (ok_response NoBytes), w\<lparr>objects := (req_url rq, d) # objects w\<rparr>))
      else
        (case map_of (objects w) (req_url rq) of
           None \<Rightarrow> (Inr (not_found_response (req_url rq)), w)
         | Some d \<Rightarrow> (Inr (ok_response d), w)))"

fun demo_index :: "(int \<times> int) list \<Rightarrow> string" where
  "demo_index [] = []"
| "demo_index [(a, b)] = show_nat (nat a)"
| "demo_index ((a, b) # sl) = show_nat (nat a) @ ''_'' @ demo_index sl"

definition demo_chunk_metadata ::
  "string \<Rightarrow> (int \<times> int) list \<Rightarrow> string option \<Rightarrow> 'v ndarray option \<Rightarrow> exc + string \<times> nat list" where
  "demo_chunk_metadata array_name slices dt chunk =
     (let shp = map (\<lambda>(a, b). nat (b - a)) slices;
          name = array_name @ ''/'' @ demo_index slices
      in case chunk of
           None \<Rightarrow> Inr (name, shp)
         | Some c \<Rightarrow> if shape c = shp then Inr (name, shp) else Inl (BadChunk name))"

definition demo_split :: "string \<Rightarrow> nat \<Rightarrow> exc + string \<times> string" where
  "demo_split name n =
     (if CHR ''/'' \<in> set name
      then Inr (takeWhile (\<lambda>c. c \<noteq> CHR ''/'') name, drop 1 (dropWhile (\<lambda>c. c \<noteq> CHR ''/'') name))
      else Inl (ValueError ''need more than 1 value to unpack''))"

definition demo_fromstring :: "'v payload \<Rightarrow> exc + element" where
  "demo_fromstring b = (case b of Document e \<Rightarrow> Inr e | _ \<Rightarrow> Inl (ParseError ''syntax error''))"

definition demo_read_array :: "'v payload \<Rightarrow> exc + 'v ndarray" where
  "demo_read_array b = (case b of ArrayBytes a \<Rightarrow> Inr a | _ \<Rightarrow> Inl (ValueError ''bad magic string''))"

definition demo_env :: "(nat, int server, int payload, int) env" where
  "demo_env =
     \<lparr>send = demo_send, fromstring = demo_fromstring, read_array = demo_read_array,
      write_array = (\<lambda>a. Inr (ArrayBytes a)), content_md5 = (\<lambda>b. ''md5''),
      urljoin = (\<lambda>base path. base @ path), quote = (\<lambda>s. s),
      chunk_metadata = demo_chunk_metadata, split = demo_split\<rparr>"

definition demo_store :: "nat S3ChunkStore" where
  "demo_store = \<lparr>session_pool = Pool_init (\<lambda>k. Suc k), url = ''http://s3/''\<rparr>"

lemma show_nat_0: "show_nat 0 = ''0''"
  by code_simp

section \<open>The session is not given back when a request fails\<close>

lemma Pool_call_raises:
  "Pool_call p body w = (Inl e, p1, w1) \<Longrightarrow> p1 = snd (Pool_get p)"
  by (auto simp: Pool_call_def Let_def split: prod.splits sum.splits)

lemma Pool_call_returns:
  "Pool_call p body w = (Inr v, p1, w1) \<Longrightarrow>
   p1 = Pool_put (snd (Pool_get p)) (fst (Pool_get p))"
  by (auto simp: Pool_call_def Let_def split: prod.splits sum.splits)

lemma standard_errors_Inl:
  "standard_errors cn r = Inl e \<Longrightarrow> \<exists>e'. r = Inl e'"
  by (cases r) (auto simp: standard_errors_def)

lemma standard_errors_Inr [simp]:
  "standard_errors cn r = Inr v \<longleftrightarrow> r = Inr v"
  by (cases r) (auto simp: standard_errors_def split: option.splits)

lemma request_raises_pool:
  assumes "request env st cn rq body w = (Inl e, st1, w1)"
  shows "session_pool st1 = snd (Pool_get (session_pool st))"
proof -
  from assms obtain r p1 where
    call: "Pool_call (session_pool st)
             (\<lambda>session w0.
                case send env session rq w0 of
                  (Inl e, w') \<Rightarrow> (Inl e, w')
                | (Inr response, w') \<Rightarrow>
                    (case raise_for_status response of
                       Inl e \<Rightarrow> (Inl e, w')
                     | Inr _ \<Rightarrow> (body response, w'))) w = (r, p1, w1)"
    and r: "standard_errors cn r = Inl e" and st1: "st1 = st\<lparr>session_pool := p1\<rparr>"
    by (auto simp: request_def Let_def split: prod.splits)
  from r obtain e' where "r = Inl e'"
    by (auto dest: standard_errors_Inl)
  with call have "p1 = snd (Pool_get (session_pool st))"
    by (auto dest: Pool_call_raises)
  with st1 show ?thesis by simp
qed

text \<open>
  After a request that raises, the idle list has lost the session (when it was taken
  from the list) or is as empty as before (when the factory made it): the session is
  in the pool no more.
\<close>

lemma request_raises_idle:
  assumes "request env st cn rq body w = (Inl e, st1, w1)"
  shows "pool (session_pool st1) = butlast (pool (session_pool st))"
  using request_raises_pool [OF assms]
  by (simp add: Pool_get_def)

text \<open>
  C1, at a failing input: \<^verbatim>\<open>has_chunk\<close> for a chunk the server does not have. The
  server answers 404, \<^verbatim>\<open>_raise_for_status\<close> raises \<open>ChunkNotFound\<close> inside the pool's scope,
  \<^verbatim>\<open>has_chunk\<close> returns \<^verbatim>\<open>False\<close>, and the session the factory made (session 1) is not in
  the idle list afterwards: the list is empty. The same call for a chunk the server has
  leaves the session in the list.
\<close>

theorem has_chunk_not_found_loses_session:
  "(case has_chunk demo_env demo_store ''b/a'' [(0, 2)] ''f8'' \<lparr>objects = [], pages = []\<rparr> of
      (r, st1, w1) \<Rightarrow>
        r = Inr False \<and> pool (session_pool st1) = [] \<and> created (session_pool st1) = 1) \<and>
   (case has_chunk demo_env demo_store ''b/a'' [(0, 2)] ''f8''
           \<lparr>objects = [(''http://s3/b/a/0.npy'', NoBytes)], pages = []\<rparr> of
      (r, st1, w1) \<Rightarrow>
        r = Inr True \<and> pool (session_pool st1) = [1] \<and> created (session_pool st1) = 1)"
  by (simp add: has_chunk_def demo_env_def demo_store_def demo_chunk_metadata_def chunk_url_def
      request_def Pool_call_def Pool_get_def Pool_put_def Pool_init_def chunk_request_def
      demo_send_def raise_for_status_def Response_raise_for_status_def standard_errors_def
      not_found_response_def ok_response_def Let_def show_nat_0)

section \<open>The probe of the constructor\<close>

lemma init_404:
  assumes "send env (session_factory 0) (probe_request u) w = (Inr response, w1)"
    and "status_code response = 404"
  shows "S3ChunkStore_init env session_factory u w = (Inl (ChunkNotFound (error_text response)), w1)"
  using assms
  by (simp add: S3ChunkStore_init_def raise_for_status_def Response_raise_for_status_def Let_def)

text \<open>
  C3, at a failing input: the server answers the probe with status 404. The constructor
  raises \<open>ChunkNotFound\<close>, which is not a \<open>RequestException\<close> and so passes the
  \<^verbatim>\<open>except\<close> clause; it does not raise \<open>StoreUnavailable\<close>. No store is returned.
\<close>

theorem init_404_raises_ChunkNotFound:
  "fst (S3ChunkStore_init demo_env (\<lambda>k. k) ''http://s3/'' \<lparr>objects = [], pages = []\<rparr>)
     = Inl (ChunkNotFound ''404 Client Error: Not Found for url: http://s3/'')"
  by (simp add: S3ChunkStore_init_def demo_env_def probe_request_def demo_send_def
      raise_for_status_def Response_raise_for_status_def not_found_response_def Let_def)

section \<open>Reading a chunk\<close>

lemma request_unfold:
  "request env st cn rq body w =
     (case send env (fst (Pool_get (session_pool st))) rq w of
        (Inl e, w') \<Rightarrow>
          (standard_errors cn (Inl e), st\<lparr>session_pool := snd (Pool_get (session_pool st))\<rparr>, w')
      | (Inr response, w') \<Rightarrow>
          (case raise_for_status response of
             Inl e \<Rightarrow>
               (standard_errors cn (Inl e), st\<lparr>session_pool := snd (Pool_get (session_pool st))\<rparr>, w')
           | Inr _ \<Rightarrow>
               (case body response of
                  Inl e \<Rightarrow>
                    (standard_errors cn (Inl e),
                     st\<lparr>session_pool := snd (Pool_get (session_pool st))\<rparr>, w')
                | Inr v \<Rightarrow>
                    (Inr v,
                     st\<lparr>session_pool :=
                          Pool_put (snd (Pool_get (session_pool st))) (fst (Pool_get (session_pool st)))\<rparr>,
                     w'))))"
  unfolding request_def Pool_call_def
  by (simp add: standard_errors_def split: prod.splits sum.splits)


lemma ok_status:
  "\<not> (400 \<le> status_code response \<and> status_code response < 600) \<Longrightarrow>
   raise_for_status response = Inr ()"
  by (simp add: raise_for_status_def Response_raise_for_status_def)

lemma request_sent_ok:
  assumes "send env (fst (Pool_get (session_pool st))) rq w = (Inr response, w1)"
    and "\<not> (400 \<le> status_code response \<and> status_code response < 600)"
  shows "fst (request env st cn rq body w) = standard_errors cn (body response)"
    and "snd (snd (request env st cn rq body w)) = w1"
  using assms
  by (simp_all add: request_unfold ok_status standard_errors_def split: sum.splits)

lemma get_chunk_sent_ok:
  assumes md: "chunk_metadata env array_name slices (Some dt) None = Inr (chunk_name, shp)"
    and sent: "send env (fst (Pool_get (session_pool st)))
                 (chunk_request GET (chunk_url env st chunk_name) Map.empty None True) w
               = (Inr response, w1)"
    and ok: "\<not> (400 \<le> status_code response \<and> status_code response < 600)"
    and dec: "read_array env (content response) = Inr chunk"
  shows "fst (get_chunk env st array_name slices dt w) =
           (if shape chunk = shp \<and> dtype chunk = dt then Inr chunk
            else Inl (BadChunk (BadChunk_text chunk_name (dtype chunk) (shape chunk) dt shp)))"
proof -
  let ?rq = "chunk_request GET (chunk_url env st chunk_name) Map.empty None True"
  let ?body = "\<lambda>response. read_array env (content response)"
  obtain r st1 w' where rq: "request env st (Some chunk_name) ?rq ?body w = (r, st1, w')"
    by (cases "request env st (Some chunk_name) ?rq ?body w") auto
  have "fst (request env st (Some chunk_name) ?rq ?body w) = Inr chunk"
    using request_sent_ok(1) [OF sent ok, where cn = "Some chunk_name" and body = ?body] dec
    by (simp add: standard_errors_def)
  with rq have r: "r = Inr chunk"
    by simp
  from md rq r show ?thesis
    by (simp add: get_chunk_def Let_def)
qed

text \<open>
  C4. When the \<^verbatim>\<open>GET\<close> of \<^verbatim>\<open>get_chunk\<close> succeeds (the session's request returns a response
  whose status is no error) and the body decodes as an array, \<^verbatim>\<open>get_chunk\<close> returns that
  array exactly when its shape is the shape \<^verbatim>\<open>chunk_metadata\<close> derived from the slices and
  its dtype is the dtype asked for; otherwise it raises \<open>BadChunk\<close> and returns no array.
\<close>

theorem get_chunk_checks_shape_and_dtype:
  assumes md: "chunk_metadata env array_name slices (Some dt) None = Inr (chunk_name, shp)"
    and sent: "send env (fst (Pool_get (session_pool st)))
                 (chunk_request GET (chunk_url env st chunk_name) Map.empty None True) w
               = (Inr response, w1)"
    and ok: "\<not> (400 \<le> status_code response \<and> status_code response < 600)"
    and dec: "read_array env (content response) = Inr chunk"
  shows "fst (get_chunk env st array_name slices dt w) =
           (if shape chunk = shp \<and> dtype chunk = dt then Inr chunk
            else Inl (BadChunk (BadChunk_text chunk_name (dtype chunk) (shape chunk) dt shp)))"
  using assms by (rule get_chunk_sent_ok)

definition demo_array :: "int ndarray" where
  "demo_array = \<lparr>shape = [2], dtype = ''f8'', elems = [3, 4]\<rparr>"

definition demo_server :: "int server" where
  "demo_server = \<lparr>objects = [(''http://s3/b/a/0.npy'', ArrayBytes demo_array)], pages = []\<rparr>"

lemma demo_md: "chunk_metadata demo_env ''b/a'' [(0, 2)] (Some dt) None = Inr (''b/a/0'', [2])"
  by (simp add: demo_env_def demo_chunk_metadata_def show_nat_0)

lemma demo_get_sent:
  "send demo_env (fst (Pool_get (session_pool demo_store)))
     (chunk_request GET (chunk_url demo_env demo_store ''b/a/0'') Map.empty None True) demo_server
   = (Inr (ok_response (ArrayBytes demo_array)), demo_server)"
  by (simp add: demo_env_def demo_send_def chunk_request_def chunk_url_def demo_store_def
      demo_server_def)

lemma demo_ok: "\<not> (400 \<le> status_code (ok_response b) \<and> status_code (ok_response b) < 600)"
  by (simp add: ok_response_def)

lemma demo_dec: "read_array demo_env (content (ok_response (ArrayBytes a))) = Inr a"
  by (simp add: demo_env_def demo_read_array_def ok_response_def)

theorem get_chunk_checks_shape_and_dtype_witness:
  "fst (get_chunk demo_env demo_store ''b/a'' [(0, 2)] ''f8'' demo_server) = Inr demo_array \<and>
   fst (get_chunk demo_env demo_store ''b/a'' [(0, 2)] ''i4'' demo_server)
     = Inl (BadChunk (BadChunk_text ''b/a/0'' ''f8'' [2] ''i4'' [2]))"
proof -
  have a: "shape demo_array = [2]" and b: "dtype demo_array = ''f8''"
    by (simp_all add: demo_array_def)
  have 1: "fst (get_chunk demo_env demo_store ''b/a'' [(0, 2)] ''f8'' demo_server) = Inr demo_array"
    unfolding get_chunk_checks_shape_and_dtype [OF demo_md demo_get_sent demo_ok demo_dec] a b
    by simp
  have 2: "fst (get_chunk demo_env demo_store ''b/a'' [(0, 2)] ''i4'' demo_server)
     = Inl (BadChunk (BadChunk_text ''b/a/0'' ''f8'' [2] ''i4'' [2]))"
    unfolding get_chunk_checks_shape_and_dtype [OF demo_md demo_get_sent demo_ok demo_dec] a b
    by simp
  from 1 2 show ?thesis ..
qed

section \<open>Listing the chunks of an array\<close>

definition page_keys :: "element \<Rightarrow> string option list" where
  "page_keys root = map etext (iter (NS @ ''Key'') root)"


text \<open>What one pass adds to the state.\<close>

definition pass_adds ::
  "string \<Rightarrow> ('h, 'b) listing \<Rightarrow> ('h, 'b) listing \<Rightarrow> element list \<Rightarrow> bool" where
  "pass_adds u s s1 new \<longleftrightarrow>
     received s1 = received s @ new \<and>
     keys s1 = keys s @ concat (map page_keys new) \<and>
     sent s1 = sent s @ [list_request u (params s)]"



lemma list_pass_Raise:
  assumes "list_pass env u s w = (Raise e s1, w1)"
  shows "pass_adds u s s1 []"
  using assms
  by (auto simp: list_pass_def Let_def pass_adds_def page_keys_def
      split: prod.splits sum.splits if_splits option.splits)


lemma strip_keys_text:
  "strip_keys prefix (map Some ks) =
     Inr (map (\<lambda>key. slice_from_to_minus key (length prefix + 1) 4)
            (filter (\<lambda>key. endswith key ''.npy'') ks))"
  by (induction ks) simp_all

text \<open>
  C10. When the listing loop ends without an exception and every key has text, the
  result of \<^verbatim>\<open>list_chunk_ids\<close> is made of the keys that end in \<^verbatim>\<open>.npy\<close> alone, in their
  order: a key that does not end in \<^verbatim>\<open>.npy\<close> is left out, and is no error.
\<close>

theorem non_npy_keys_omitted:
  assumes "split env array_name 1 = Inr (bucket, prefix)"
    and "list_loop fuel env (urljoin env (url st) (quote env bucket))
           \<lparr>keys = [], params = [''prefix'' \<mapsto> PyStr prefix, ''max-keys'' \<mapsto> PyInt list_max_keys],
            store = st, sent = [], received = [], warned = False\<rparr> w
         = Some (Inr (), s, w1)"
    and "keys s = map Some ks"
  shows "list_chunk_ids fuel env st array_name w =
           Some (Inr (map (\<lambda>key. slice_from_to_minus key (length prefix + 1) 4)
                        (filter (\<lambda>key. endswith key ''.npy'') ks)), s, w1)"
  using assms
  by (simp add: list_chunk_ids_def Let_def strip_keys_text)

definition key_element :: "string \<Rightarrow> element" where
  "key_element k = Element (NS @ ''Contents'') None [Element (NS @ ''Key'') (Some k) []]"

definition listing_document :: "string list \<Rightarrow> string \<Rightarrow> element list \<Rightarrow> element" where
  "listing_document ks truncated extra =
     Element (NS @ ''ListBucketResult'') None
       (map key_element ks @ [Element (NS @ ''IsTruncated'') (Some truncated) []] @ extra)"

definition demo_listing :: "int server" where
  "demo_listing =
     \<lparr>objects = [], pages = [listing_document [''a/0.npy'', ''a/notes.txt'', ''a/1.npy''] ''false'' []]\<rparr>"

lemmas demo_defs =
  demo_env_def demo_store_def demo_send_def demo_fromstring_def demo_split_def
  ok_response_def Pool_init_def Pool_get_def Pool_put_def

lemmas listing_defs =
  list_pass_def list_request_def request_unfold raise_for_status_def
  Response_raise_for_status_def standard_errors_def update_marker_def find_child_def
  iter_def listing_document_def key_element_def Let_def

theorem non_npy_keys_omitted_witness:
  "map_option fst (list_chunk_ids 1 demo_env demo_store ''b/a'' demo_listing)
     = Some (Inr [''0'', ''1''])"
proof -
  have sp: "split demo_env ''b/a'' 1 = Inr (''b'', ''a'')"
    by (simp add: demo_env_def demo_split_def)
  have u: "urljoin demo_env (url demo_store) (quote demo_env ''b'') = ''http://s3/b''"
    by (simp add: demo_env_def demo_store_def)
  obtain s w1 where
    loop: "list_loop 1 demo_env ''http://s3/b''
             \<lparr>keys = [], params = [''prefix'' \<mapsto> PyStr ''a'', ''max-keys'' \<mapsto> PyInt list_max_keys],
              store = demo_store, sent = [], received = [], warned = False\<rparr> demo_listing
           = Some (Inr (), s, w1)"
    and ks: "keys s = map Some [''a/0.npy'', ''a/notes.txt'', ''a/1.npy'']"
    by (simp add: demo_defs listing_defs demo_listing_def)
  from non_npy_keys_omitted [OF sp loop [folded u] ks]
  show ?thesis
    by (simp add: endswith_def slice_from_to_minus_def)
qed

subsection \<open>The marker of the next request\<close>

text \<open>
  A \<^verbatim>\<open>NextMarker\<close> element that holds text and no child element, as a listing document
  has it, is false under \<^verbatim>\<open>if next_marker:\<close>: the marker is the last key.
\<close>

lemma update_marker_leaf:
  assumes "find_child (NS @ ''NextMarker'') root = Some nm" and "children nm = []" and "ks \<noteq> []"
  shows "update_marker root ks ps = Some (ps(''marker'' \<mapsto> pytext (last ks)))"
  using assms by (simp add: update_marker_def)

lemma update_marker_no_keys:
  assumes "\<not> truth (find_child (NS @ ''NextMarker'') root)"
  shows "update_marker root [] ps = None"
  using assms by (simp add: update_marker_def)

definition demo_two_pages :: "int server" where
  "demo_two_pages =
     \<lparr>objects = [],
      pages = [listing_document [''a/0.npy''] ''true'' [Element (NS @ ''NextMarker'') (Some ''a/5.npy'') []],
               listing_document [''a/1.npy''] ''false'' []]\<rparr>"

text \<open>
  C2, at a failing input: the first page is truncated, holds the key \<^verbatim>\<open>a/0.npy\<close> and
  supplies \<^verbatim>\<open>NextMarker\<close> \<^verbatim>\<open>a/5.npy\<close>. The second request carries the marker \<^verbatim>\<open>a/0.npy\<close>,
  the last key, not the \<^verbatim>\<open>NextMarker\<close> of the page.
\<close>

theorem next_marker_ignored:
  "map_option (\<lambda>(r, s, w1). (r, map (\<lambda>rq. req_params rq ''marker'') (sent s)))
     (list_chunk_ids 2 demo_env demo_store ''b/a'' demo_two_pages)
   = Some (Inr [''0'', ''1''], [None, Some (PyStr ''a/0.npy'')])"
  by (simp add: list_chunk_ids_def numeral_2_eq_2 demo_defs listing_defs demo_two_pages_def
      endswith_def slice_from_to_minus_def)

subsection \<open>The result of the listing\<close>






text \<open>A session that was put back is the one the next request gets.\<close>

lemma Pool_get_put:
  "fst (Pool_get (Pool_put (snd (Pool_get p)) (fst (Pool_get p)))) = fst (Pool_get p)"
  by (simp add: Pool_get_def Pool_put_def)












subsection \<open>A server that pages by marker\<close>

text \<open>
  A server without state, as an object store is for listing: it holds the keys of a
  bucket in their order and answers a listing request with the keys under the prefix
  that come after the marker, at most \<open>page_size\<close> of them, truncated when more remain.
\<close>

record bucket =
  bucket_keys :: "string list"
  page_size :: nat











section \<open>Writing a chunk and reading it back\<close>

text \<open>
  The binary format of a chunk (\<^verbatim>\<open>np.lib.format\<close>) is a header with the dtype and the shape
  of the array, followed by its elements in row-major order; \<open>ArrayBytes a\<close> stands for
  these bytes of the array \<open>a\<close>. An array whose dtype holds Python objects has no such
  bytes: it can only be pickled, and with \<^verbatim>\<open>allow_pickle=False\<close>, as the store calls them,
  \<^verbatim>\<open>write_array\<close> and \<^verbatim>\<open>read_array\<close> raise \<^verbatim>\<open>ValueError\<close> for it. \<open>hasobject\<close> is
  \<^verbatim>\<open>dtype.hasobject\<close>, for the dtypes that are not structured.
\<close>

definition hasobject :: "string \<Rightarrow> bool" where
  "hasobject dt \<longleftrightarrow> dt = ''object''"

definition npy_write_array :: "'v ndarray \<Rightarrow> exc + 'v payload" where
  "npy_write_array a =
     (if hasobject (dtype a)
      then Inl (ValueError ''Object arrays cannot be saved when allow_pickle=False'')
      else Inr (ArrayBytes a))"

definition npy_read_array :: "'v payload \<Rightarrow> exc + 'v ndarray" where
  "npy_read_array b =
     (case b of
        ArrayBytes a \<Rightarrow>
          if hasobject (dtype a)
          then Inl (ValueError ''Object arrays cannot be loaded when allow_pickle=False'')
          else Inr a
      | _ \<Rightarrow> Inl (ValueError ''bad magic string''))"

text \<open>The surroundings \<open>env\<close>, with this format for the arrays.\<close>

definition npy_env :: "('h, 'w, 'v payload, 'v) env \<Rightarrow> ('h, 'w, 'v payload, 'v) env" where
  "npy_env env = env\<lparr>write_array := npy_write_array, read_array := npy_read_array\<rparr>"

lemma npy_env_simps [simp]:
  "send (npy_env env) = send env"
  "chunk_metadata (npy_env env) = chunk_metadata env"
  "content_md5 (npy_env env) = content_md5 env"
  "write_array (npy_env env) = npy_write_array"
  "read_array (npy_env env) = npy_read_array"
  "chunk_url (npy_env env) st n = chunk_url env st n"
  by (simp_all add: npy_env_def chunk_url_def)

lemma put_chunk_sent_ok:
  assumes md: "chunk_metadata env array_name slices None (Some a) = Inr (chunk_name, shp)"
    and enc: "write_array env a = Inr fp"
    and sent: "send env (fst (Pool_get (session_pool st)))
                 (chunk_request PUT (chunk_url env st chunk_name)
                    [''Content-MD5'' \<mapsto> content_md5 env fp] (Some fp) False) w
               = (Inr response, w1)"
    and ok: "\<not> (400 \<le> status_code response \<and> status_code response < 600)"
  shows "put_chunk env st array_name slices a w =
           (Inr (),
            st\<lparr>session_pool :=
                 Pool_put (snd (Pool_get (session_pool st))) (fst (Pool_get (session_pool st)))\<rparr>,
            w1)"
  using md enc sent ok_status [OF ok]
  by (simp add: put_chunk_def Let_def request_unfold)

text \<open>
  C5, as the code has it. Let the array \<open>a\<close> hold no Python objects, and let the index
  ranges be valid for it: \<^verbatim>\<open>chunk_metadata\<close> accepts them with the array on writing and
  with its dtype on reading, gives the same chunk name both times and, on reading, the
  shape of \<open>a\<close>. Let the server accept the \<^verbatim>\<open>PUT\<close> of the bytes of \<open>a\<close> and afterwards
  answer the \<^verbatim>\<open>GET\<close> of the same URL with these bytes. Then \<^verbatim>\<open>put_chunk\<close> succeeds and
  \<^verbatim>\<open>get_chunk\<close> after it returns \<open>a\<close>: the same shape, dtype and elements.
\<close>

theorem put_then_get_roundtrip:
  assumes obj: "\<not> hasobject (dtype a)"
    and mdp: "chunk_metadata env array_name slices None (Some a) = Inr (chunk_name, shp)"
    and mdg: "chunk_metadata env array_name slices (Some (dtype a)) None = Inr (chunk_name, shape a)"
    and put: "send env (fst (Pool_get (session_pool st)))
                 (chunk_request PUT (chunk_url env st chunk_name)
                    [''Content-MD5'' \<mapsto> content_md5 env (ArrayBytes a)] (Some (ArrayBytes a)) False) w
               = (Inr r1, w1)"
    and put_ok: "\<not> (400 \<le> status_code r1 \<and> status_code r1 < 600)"
    and get: "send env (fst (Pool_get (session_pool st)))
                (chunk_request GET (chunk_url env st chunk_name) Map.empty None True) w1
              = (Inr r2, w2)"
    and get_ok: "\<not> (400 \<le> status_code r2 \<and> status_code r2 < 600)"
    and same: "content r2 = ArrayBytes a"
  shows "\<exists>st1. put_chunk (npy_env env) st array_name slices a w = (Inr (), st1, w1) \<and>
               fst (get_chunk (npy_env env) st1 array_name slices (dtype a) w1) = Inr a"
proof -
  define st1 where "st1 = st\<lparr>session_pool :=
      Pool_put (snd (Pool_get (session_pool st))) (fst (Pool_get (session_pool st)))\<rparr>"
  have p: "put_chunk (npy_env env) st array_name slices a w = (Inr (), st1, w1)"
    unfolding st1_def
    by (rule put_chunk_sent_ok [where fp = "ArrayBytes a" and chunk_name = chunk_name
          and shp = shp and response = r1])
       (simp_all add: mdp npy_write_array_def obj put put_ok)
  have u: "chunk_url env st1 chunk_name = chunk_url env st chunk_name"
    by (simp add: chunk_url_def st1_def)
  have h: "fst (Pool_get (session_pool st1)) = fst (Pool_get (session_pool st))"
    by (simp add: st1_def Pool_get_put)
  have g: "send (npy_env env) (fst (Pool_get (session_pool st1)))
          (chunk_request GET (chunk_url (npy_env env) st1 chunk_name) Map.empty None True) w1
        = (Inr r2, w2)"
    using get by (simp add: u h)
  have d2: "read_array (npy_env env) (content r2) = Inr a"
    using obj same by (simp add: npy_read_array_def)
  have m: "chunk_metadata (npy_env env) array_name slices (Some (dtype a)) None
      = Inr (chunk_name, shape a)"
    using mdg by simp
  have "fst (get_chunk (npy_env env) st1 array_name slices (dtype a) w1) = Inr a"
    using get_chunk_sent_ok [OF m g get_ok d2] by simp
  with p show ?thesis by blast
qed

theorem put_then_get_roundtrip_witness:
  "\<exists>st1 w1. put_chunk (npy_env demo_env) demo_store ''b/a'' [(0, 2)] demo_array
                 \<lparr>objects = [], pages = []\<rparr>
               = (Inr (), st1, w1) \<and>
            fst (get_chunk (npy_env demo_env) st1 ''b/a'' [(0, 2)] ''f8'' w1) = Inr demo_array"
proof -
  let ?w1 = "\<lparr>objects = [(''http://s3/b/a/0.npy'', ArrayBytes demo_array)], pages = []\<rparr> :: int server"
  have obj: "\<not> hasobject (dtype demo_array)"
    by (simp add: hasobject_def demo_array_def)
  have mdp: "chunk_metadata demo_env ''b/a'' [(0, 2)] None (Some demo_array) = Inr (''b/a/0'', [2])"
    by (simp add: demo_env_def demo_chunk_metadata_def show_nat_0 demo_array_def)
  have mdg: "chunk_metadata demo_env ''b/a'' [(0, 2)] (Some (dtype demo_array)) None
      = Inr (''b/a/0'', shape demo_array)"
    by (simp add: demo_md demo_array_def)
  have put: "send demo_env (fst (Pool_get (session_pool demo_store)))
       (chunk_request PUT (chunk_url demo_env demo_store ''b/a/0'')
          [''Content-MD5'' \<mapsto> content_md5 demo_env (ArrayBytes demo_array)]
          (Some (ArrayBytes demo_array)) False) \<lparr>objects = [], pages = []\<rparr>
     = (Inr (ok_response NoBytes), ?w1)"
    by (simp add: demo_env_def demo_send_def chunk_request_def chunk_url_def demo_store_def)
  have get: "send demo_env (fst (Pool_get (session_pool demo_store)))
         (chunk_request GET (chunk_url demo_env demo_store ''b/a/0'') Map.empty None True) ?w1
       = (Inr (ok_response (ArrayBytes demo_array)), ?w1)"
    by (simp add: demo_env_def demo_send_def chunk_request_def chunk_url_def demo_store_def)
  have same: "content (ok_response (ArrayBytes demo_array)) = ArrayBytes demo_array"
    by (simp add: ok_response_def)
  from put_then_get_roundtrip [OF obj mdp mdg put demo_ok get demo_ok same]
  show ?thesis
    by (auto simp: demo_array_def)
qed

text \<open>
  C5 as it is stated fails for an array of Python objects: the ranges are valid and the
  server stores what it is given, but \<^verbatim>\<open>write_array\<close> refuses the array before any request
  is made, \<^verbatim>\<open>put_chunk\<close> raises \<^verbatim>\<open>ValueError\<close>, and \<^verbatim>\<open>get_chunk\<close> after it finds no chunk.
\<close>

definition object_array :: "int ndarray" where
  "object_array = \<lparr>shape = [2], dtype = ''object'', elems = [3, 4]\<rparr>"

theorem put_object_array_refused:
  "put_chunk (npy_env demo_env) demo_store ''b/a'' [(0, 2)] object_array \<lparr>objects = [], pages = []\<rparr>
     = (Inl (ValueError ''Object arrays cannot be saved when allow_pickle=False''),
        demo_store, \<lparr>objects = [], pages = []\<rparr>) \<and>
   fst (get_chunk (npy_env demo_env) demo_store ''b/a'' [(0, 2)] (dtype object_array)
          \<lparr>objects = [], pages = []\<rparr>)
     = Inl (ChunkNotFound ''404 Client Error: Not Found for url: http://s3/b/a/0.npy'') \<and>
   fst (get_chunk (npy_env demo_env) demo_store ''b/a'' [(0, 2)] (dtype object_array)
          \<lparr>objects = [], pages = []\<rparr>)
     \<noteq> Inr object_array"
  by (simp add: put_chunk_def get_chunk_def npy_write_array_def hasobject_def object_array_def
      demo_env_def demo_chunk_metadata_def show_nat_0 request_unfold demo_send_def
      chunk_request_def chunk_url_def demo_store_def Pool_init_def Pool_get_def
      raise_for_status_def Response_raise_for_status_def not_found_response_def
      standard_errors_def npy_env_def Let_def)

section \<open>Sessions, timeouts and retries\<close>

text \<open>
  \<^verbatim>\<open>_TimeoutHTTPAdapter\<close>: the retry budget \<^verbatim>\<open>max_retries\<close> that the library's
  \<^verbatim>\<open>HTTPAdapter\<close> keeps, and the default timeout (\<^verbatim>\<open>None\<close>: none).
\<close>

record 't adapter =
  max_retries :: nat
  default_timeout :: "'t option"


text \<open>
  A session as \<^verbatim>\<open>session_factory\<close> of \<^verbatim>\<open>_from_url\<close> makes it: \<^verbatim>\<open>requests.Session()\<close> with
  one \<^verbatim>\<open>_TimeoutHTTPAdapter(max_retries=2, timeout=timeout)\<close> mounted on the URL of the
  store. \<open>serial\<close> tells the sessions of one factory apart. The adapters the library
  mounts itself serve the URLs that do not start with the prefix.
\<close>

record 't session =
  mount_prefix :: string
  mounted :: "'t adapter"
  serial :: nat

definition session_factory :: "string \<Rightarrow> 't option \<Rightarrow> nat \<Rightarrow> 't session" where
  "session_factory u timeout k =
     \<lparr>mount_prefix = u, mounted = \<lparr>max_retries = 2, default_timeout = timeout\<rparr>, serial = k\<rparr>"







section \<open>Construction from a URL, under a deadline\<close>










end
